theory Spec2Isabelle
  imports Main
begin

section \<open>Documents, stores and sessions\<close>

text \<open>
  The note application keeps three MongoDB collections (notes, users, one-time
  passwords) and a server-side session per client. A collection is modelled as
  the list of its documents in insertion order, an \<open>ObjectId\<close> as a natural number,
  a \<open>Date\<close> as its millisecond count, and an absent (\<open>undefined\<close>) field as
  \<open>None\<close>. The forms of the application submit every field they show, so a body
  field is a string, possibly empty; the path parameter \<open>:id\<close> is \<open>None\<close> when the
  text in the URL does not cast to an \<open>ObjectId\<close>.
\<close>

type_synonym objectId = nat

text \<open>\<open>models/notes.js\<close>: title, content, the owning user, and the two timestamps
  that \<open>timestamps: true\<close> maintains.\<close>

record note_doc =
  note_id :: objectId
  note_title :: string
  note_content :: string
  note_user :: objectId
  note_createdAt :: int
  note_updatedAt :: int

text \<open>\<open>models/otp.js\<close>: \<open>userIdentifier\<close> (required), \<open>otp\<close>, \<open>createdAt\<close>.\<close>

record otp_doc =
  otp_id :: objectId
  otp_userIdentifier :: string
  otp_otp :: string
  otp_createdAt :: int

text \<open>A user document as \<open>app.js\<close> builds it: \<open>new User({ email, password })\<close>. The
  email is whatever the session holds under \<open>tempUserIdentifier\<close>, so it may be
  absent.\<close>

record user_doc =
  user_id :: objectId
  user_email :: "string option"
  user_password :: string

text \<open>A message handed to \<open>transporter.sendMail\<close>.\<close>

record mail =
  mail_from :: string
  mail_to :: string
  mail_subject :: string
  mail_text :: string

text \<open>The persistent state: the three collections and the mails the transport has
  accepted.\<close>

record state =
  db_notes :: "note_doc list"
  db_users :: "user_doc list"
  db_otps :: "otp_doc list"
  outbox :: "mail list"

text \<open>\<open>req.session\<close>: the three keys the handlers read and write.\<close>

record session =
  userId :: "objectId option"
  userIdentifier :: "string option"
  tempUserIdentifier :: "string option"

text \<open>Exceptions of the collaborators: a schema validator rejecting a document, a path
  parameter that is no \<open>ObjectId\<close>, the mail transport refusing a message.\<close>

datatype error = ValidationError | CastError | MailError

datatype locals =
    Message string
  | ErrMessage error
  | OneNote note_doc
  | Notes "note_doc list"

text \<open>What a handler answers: \<open>res.redirect(path)\<close>, \<open>res.status(s).send(text)\<close>
  (\<open>res.send\<close> alone has status 200) and \<open>res.status(s).render(view, locals)\<close>.\<close>

datatype response =
    Redirect string
  | Send nat string
  | Render nat string locals

text \<open>
  Everything a handler obtains from outside the source files during one request:
  the code drawn by \<open>Math.floor(100000 + Math.random() * 900000).toString()\<close>, the
  value of \<open>new Date()\<close>, the \<open>_id\<close> given to a document created in this request,
  whether \<open>transporter.sendMail\<close> resolves, whether \<open>req.session.save\<close> reports no
  error, \<open>process.env.GMAIL_USER\<close>, and the two functions of \<open>bcrypt\<close> (the salt
  of \<open>bcrypt.hash\<close> is part of the request's environment).

  \<open>User_accepts\<close> stands for the schema of \<open>models/user.js\<close>, which is not among the
  source files: it tells whether \<open>user.save()\<close> stores the document, given the users
  already stored, or rejects it. The handlers are defined for any such schema.
\<close>

record env =
  random_otpCode :: string
  new_Date :: int
  new_ObjectId :: objectId
  mail_ok :: bool
  save_ok :: bool
  GMAIL_USER :: string
  bcrypt_hash :: "string \<Rightarrow> string"
  bcrypt_compare :: "string \<Rightarrow> string \<Rightarrow> bool"
  User_accepts :: "user_doc list \<Rightarrow> user_doc \<Rightarrow> bool"

text \<open>
  Modelled from the spec: \<open>models/user.js\<close>, the schema of the users, is not among
  the source files. By the specification a password set without a verified identity
  is a hard failure that creates no user, and \<open>POST /set-password\<close> has no test of
  its own, so the refusal is the schema's: \<open>email\<close> is a required string, as the
  key fields of the two schemas in the sources are, and the validator of a required
  string rejects an absent and an empty one. That the email be unique is not
  enforced when the password is set (section 4.1 of the specification), so the
  users already stored play no part.
\<close>

definition User_schema :: "user_doc list \<Rightarrow> user_doc \<Rightarrow> bool" where
  "User_schema us u = (case user_email u of None \<Rightarrow> False | Some e \<Rightarrow> e \<noteq> [])"

type_synonym outcome = "response \<times> state \<times> session"

section \<open>Collection operations\<close>

text \<open>\<open>Model.findOne(filter)\<close> is \<^const>\<open>find\<close>: the first matching document in
  natural order, or none. \<open>Model.find(filter)\<close> is \<^const>\<open>filter\<close>.\<close>

fun findOneAndUpdate :: "('a \<Rightarrow> bool) \<Rightarrow> ('a \<Rightarrow> 'a) \<Rightarrow> 'a list \<Rightarrow> 'a option \<times> 'a list" where
  "findOneAndUpdate p f [] = (None, [])"
| "findOneAndUpdate p f (x # xs) =
     (if p x then (Some (f x), f x # xs)
      else (case findOneAndUpdate p f xs of (r, ys) \<Rightarrow> (r, x # ys)))"

fun findOneAndDelete :: "('a \<Rightarrow> bool) \<Rightarrow> 'a list \<Rightarrow> 'a option \<times> 'a list" where
  "findOneAndDelete p [] = (None, [])"
| "findOneAndDelete p (x # xs) =
     (if p x then (Some x, xs)
      else (case findOneAndDelete p xs of (r, ys) \<Rightarrow> (r, x # ys)))"

text \<open>\<open>Model.deleteOne(filter)\<close>: removes the first matching document, if any.\<close>

definition deleteOne :: "('a \<Rightarrow> bool) \<Rightarrow> 'a list \<Rightarrow> 'a list" where
  "deleteOne p xs = snd (findOneAndDelete p xs)"

text \<open>The filter \<open>{ _id: req.params.id, user: req.session.userId }\<close> of the note
  routes.\<close>

definition owned_note :: "objectId \<Rightarrow> objectId \<Rightarrow> note_doc \<Rightarrow> bool" where
  "owned_note i uid n = (note_id n = i \<and> note_user n = uid)"

text \<open>\<open>OTP.find({ userIdentifier: email }).sort({ createdAt: -1 })\<close>: the records of
  the identity, newest first. MongoDB leaves the order of records with equal
  \<open>createdAt\<close> open; the model keeps them in natural order.\<close>

definition find_otps :: "string \<Rightarrow> otp_doc list \<Rightarrow> otp_doc list" where
  "find_otps email ds =
     sort_key (\<lambda>r. - otp_createdAt r) (filter (\<lambda>r. otp_userIdentifier r = email) ds)"

text \<open>\<open>OTP.create\<close>: the schema requires \<open>userIdentifier\<close>, and the validator of a
  required string rejects the empty string.\<close>

definition OTP_create :: "otp_doc \<Rightarrow> otp_doc list \<Rightarrow> error + otp_doc list" where
  "OTP_create d ds =
     (if otp_userIdentifier d = [] then Inl ValidationError else Inr (ds @ [d]))"

section \<open>Middleware\<close>

text \<open>
  The final error handler renders the view \<open>404\<close> with the status of the error, 500
  when the error carries none (none of the three does), and the error's message.
  \<open>utils/asyncWrap.js\<close> is not among the source files; as the specification
  describes it, an exception that a wrapped handler does not catch reaches this
  handler, and what the handler had written before the exception stays written.
\<close>

definition error_handler :: "error \<Rightarrow> response" where
  "error_handler err = Render 500 ''404'' (ErrMessage err)"

text \<open>The same handler in the second copy of the application, which names the view
  with its extension.\<close>

definition error_handler_v :: "error \<Rightarrow> response" where
  "error_handler_v err = Render 500 ''404.ejs'' (ErrMessage err)"

text \<open>\<open>requireLogin\<close>: without \<open>req.session.userId\<close> the request is redirected to
  \<open>/login\<close>; otherwise the route handler runs with that user id.\<close>

definition requireLogin :: "state \<Rightarrow> session \<Rightarrow> (objectId \<Rightarrow> outcome) \<Rightarrow> outcome" where
  "requireLogin st sess next =
     (case userId sess of
        None \<Rightarrow> (Redirect ''/login'', st, sess)
      | Some uid \<Rightarrow> next uid)"

section \<open>Note routes (\<open>NoteApp/app.js\<close>)\<close>

definition get_notes :: "state \<Rightarrow> session \<Rightarrow> outcome" where
  "get_notes st sess =
     requireLogin st sess (\<lambda>uid.
       (Render 200 ''notes/index.ejs'' (Notes (filter (\<lambda>n. note_user n = uid) (db_notes st))),
        st, sess))"

definition post_notes :: "env \<Rightarrow> state \<Rightarrow> session \<Rightarrow> string \<Rightarrow> string \<Rightarrow> outcome" where
  "post_notes env st sess title content =
     requireLogin st sess (\<lambda>uid.
       (Redirect ''/notes'',
        st\<lparr>db_notes := db_notes st @
          [\<lparr>note_id = new_ObjectId env, note_title = title, note_content = content,
            note_user = uid, note_createdAt = new_Date env, note_updatedAt = new_Date env\<rparr>]\<rparr>,
        sess))"

text \<open>\<open>GET /notes/:id\<close>: the query sits in a \<open>try\<close> block, so a cast error is answered
  locally with status 500.\<close>

definition get_note :: "state \<Rightarrow> session \<Rightarrow> objectId option \<Rightarrow> outcome" where
  "get_note st sess nid =
     requireLogin st sess (\<lambda>uid.
       (case nid of
          None \<Rightarrow> (Send 500 ''Server error'', st, sess)
        | Some i \<Rightarrow>
            (case find (owned_note i uid) (db_notes st) of
               None \<Rightarrow> (Render 404 ''404'' (Message ''Note not found!''), st, sess)
             | Some note \<Rightarrow> (Render 200 ''notes/show'' (OneNote note), st, sess))))"

definition get_note_edit :: "state \<Rightarrow> session \<Rightarrow> objectId option \<Rightarrow> outcome" where
  "get_note_edit st sess nid =
     requireLogin st sess (\<lambda>uid.
       (case nid of
          None \<Rightarrow> (error_handler CastError, st, sess)
        | Some i \<Rightarrow>
            (case find (owned_note i uid) (db_notes st) of
               None \<Rightarrow> (Render 404 ''404'' (Message ''Note not found!''), st, sess)
             | Some note \<Rightarrow> (Render 200 ''notes/edit'' (OneNote note), st, sess))))"

text \<open>\<open>PUT /notes/:id\<close>: \<open>findOneAndUpdate\<close> sets title and content of the first note
  matching the compound filter (and, the schema having timestamps, \<open>updatedAt\<close>).\<close>

definition put_note ::
  "env \<Rightarrow> state \<Rightarrow> session \<Rightarrow> objectId option \<Rightarrow> string \<Rightarrow> string \<Rightarrow> outcome" where
  "put_note env st sess nid title content =
     requireLogin st sess (\<lambda>uid.
       (case nid of
          None \<Rightarrow> (error_handler CastError, st, sess)
        | Some i \<Rightarrow>
            (case findOneAndUpdate (owned_note i uid)
                    (\<lambda>n. n\<lparr>note_title := title, note_content := content,
                            note_updatedAt := new_Date env\<rparr>) (db_notes st) of
               (None, _) \<Rightarrow> (Render 404 ''404'' (Message ''Note not found!''), st, sess)
             | (Some note, ns) \<Rightarrow> (Redirect ''/notes'', st\<lparr>db_notes := ns\<rparr>, sess))))"

definition delete_note :: "state \<Rightarrow> session \<Rightarrow> objectId option \<Rightarrow> outcome" where
  "delete_note st sess nid =
     requireLogin st sess (\<lambda>uid.
       (case nid of
          None \<Rightarrow> (error_handler CastError, st, sess)
        | Some i \<Rightarrow>
            (case findOneAndDelete (owned_note i uid) (db_notes st) of
               (None, _) \<Rightarrow> (Render 404 ''404'' (Message ''Note not found!''), st, sess)
             | (Some note, ns) \<Rightarrow> (Redirect ''/notes'', st\<lparr>db_notes := ns\<rparr>, sess))))"

section \<open>Signup, verification, password and login (\<open>NoteApp/app.js\<close>)\<close>

text \<open>The mail of \<open>POST /signup\<close>.\<close>

definition otp_mail :: "env \<Rightarrow> string \<Rightarrow> string \<Rightarrow> mail" where
  "otp_mail env email otpCode =
     \<lparr>mail_from = ''\"NoteApp\" <'' @ GMAIL_USER env @ ''>'', mail_to = email,
      mail_subject = ''Your OTP Code'', mail_text = ''Your OTP is '' @ otpCode @ ''.''\<rparr>"

text \<open>
  \<open>POST /signup\<close>: create the record, then send the mail, then set the pending
  identity and save the session. An exception of \<open>OTP.create\<close> or of \<open>sendMail\<close>
  leaves through \<open>asyncWrap\<close> with what was done before it kept. The session of the
  outcome is \<open>req.session\<close> as the handler leaves it.
\<close>

definition post_signup :: "env \<Rightarrow> state \<Rightarrow> session \<Rightarrow> string \<Rightarrow> outcome" where
  "post_signup env st sess email =
     (let otpCode = random_otpCode env in
      case OTP_create \<lparr>otp_id = new_ObjectId env, otp_userIdentifier = email,
                        otp_otp = otpCode, otp_createdAt = new_Date env\<rparr> (db_otps st) of
        Inl err \<Rightarrow> (error_handler err, st, sess)
      | Inr ds \<Rightarrow>
          if \<not> mail_ok env then (error_handler MailError, st\<lparr>db_otps := ds\<rparr>, sess)
          else
            let st' = st\<lparr>db_otps := ds, outbox := outbox st @ [otp_mail env email otpCode]\<rparr>;
                sess' = sess\<lparr>userIdentifier := Some email\<rparr>
            in if \<not> save_ok env then (Send 200 ''Session error'', st', sess')
               else (Redirect ''/verify-otp'', st', sess'))"

text \<open>
  \<open>POST /verify-otp\<close>. \<open>!email\<close> holds for an absent key and for the empty string.
  Only the first record of the sorted list is compared with the submitted code; on a
  match \<open>deleteOne\<close> removes the record with that \<open>_id\<close> and the session gets the key
  \<open>tempUserIdentifier\<close>.
\<close>

definition post_verify_otp :: "state \<Rightarrow> session \<Rightarrow> string \<Rightarrow> outcome" where
  "post_verify_otp st sess otp =
     (case userIdentifier sess of
        None \<Rightarrow> (Send 200 ''Session expired or email not found.'', st, sess)
      | Some email \<Rightarrow>
          if email = [] then (Send 200 ''Session expired or email not found.'', st, sess)
          else
            (case find_otps email (db_otps st) of
               [] \<Rightarrow> (Send 200 ''No OTP record found.'', st, sess)
             | latestOtp # _ \<Rightarrow>
                 if otp_otp latestOtp \<noteq> otp then (Send 200 ''Invalid OTP'', st, sess)
                 else
                   (Redirect ''/set-password'',
                    st\<lparr>db_otps := deleteOne (\<lambda>r. otp_id r = otp_id latestOtp) (db_otps st)\<rparr>,
                    sess\<lparr>tempUserIdentifier := Some email\<rparr>)))"

text \<open>
  \<open>POST /set-password\<close>: hash, build the user from \<open>req.session.tempUserIdentifier\<close>,
  save, log the session in. The handler reads the key without testing it; a
  rejected \<open>save\<close> leaves through \<open>asyncWrap\<close>.
\<close>

definition post_set_password :: "env \<Rightarrow> state \<Rightarrow> session \<Rightarrow> string \<Rightarrow> outcome" where
  "post_set_password env st sess password =
     (let hashed = bcrypt_hash env password;
          user = \<lparr>user_id = new_ObjectId env, user_email = tempUserIdentifier sess,
                  user_password = hashed\<rparr>
      in if \<not> User_accepts env (db_users st) user
         then (error_handler ValidationError, st, sess)
         else (Redirect ''/notes'', st\<lparr>db_users := db_users st @ [user]\<rparr>,
               sess\<lparr>userId := Some (user_id user)\<rparr>))"

definition post_login :: "env \<Rightarrow> state \<Rightarrow> session \<Rightarrow> string \<Rightarrow> string \<Rightarrow> outcome" where
  "post_login env st sess email password =
     (case find (\<lambda>u. user_email u = Some email) (db_users st) of
        None \<Rightarrow> (Send 200 ''No user'', st, sess)
      | Some user \<Rightarrow>
          if \<not> bcrypt_compare env password (user_password user)
          then (Send 200 ''Invalid Password'', st, sess)
          else (Redirect ''/notes'', st, sess\<lparr>userId := Some (user_id user)\<rparr>))"

text \<open>\<open>GET /logout\<close>: the session is destroyed.\<close>

definition get_logout :: "state \<Rightarrow> session \<Rightarrow> outcome" where
  "get_logout st sess =
     (Redirect ''/login'', st,
      \<lparr>userId = None, userIdentifier = None, tempUserIdentifier = None\<rparr>)"

section \<open>The second copy of the application\<close>

text \<open>
  The repository holds a second, commented copy of \<open>app.js\<close>. Its handlers are those
  above except for the names of views, most of them written with the extension
  (\<open>404.ejs\<close> in \<open>GET\<close> and \<open>PUT /notes/:id\<close> and in the final error handler, still
  \<open>404\<close> in \<open>DELETE /notes/:id\<close>), a test for an already registered email at the head
  of \<open>POST /signup\<close>, and a second test of \<open>req.session.userId\<close> in \<open>POST /login\<close>.
  \<open>POST /verify-otp\<close> and \<open>POST /set-password\<close> are the same in both copies.
\<close>

definition get_note_v :: "state \<Rightarrow> session \<Rightarrow> objectId option \<Rightarrow> outcome" where
  "get_note_v st sess nid =
     requireLogin st sess (\<lambda>uid.
       (case nid of
          None \<Rightarrow> (Send 500 ''Server error'', st, sess)
        | Some i \<Rightarrow>
            (case find (owned_note i uid) (db_notes st) of
               None \<Rightarrow> (Render 404 ''404.ejs'' (Message ''Note not found!''), st, sess)
             | Some note \<Rightarrow> (Render 200 ''notes/show.ejs'' (OneNote note), st, sess))))"

definition put_note_v ::
  "env \<Rightarrow> state \<Rightarrow> session \<Rightarrow> objectId option \<Rightarrow> string \<Rightarrow> string \<Rightarrow> outcome" where
  "put_note_v env st sess nid title content =
     requireLogin st sess (\<lambda>uid.
       (case nid of
          None \<Rightarrow> (error_handler_v CastError, st, sess)
        | Some i \<Rightarrow>
            (case findOneAndUpdate (owned_note i uid)
                    (\<lambda>n. n\<lparr>note_title := title, note_content := content,
                            note_updatedAt := new_Date env\<rparr>) (db_notes st) of
               (None, _) \<Rightarrow> (Render 404 ''404.ejs'' (Message ''Note not found!''), st, sess)
             | (Some note, ns) \<Rightarrow> (Redirect ''/notes'', st\<lparr>db_notes := ns\<rparr>, sess))))"

definition delete_note_v :: "state \<Rightarrow> session \<Rightarrow> objectId option \<Rightarrow> outcome" where
  "delete_note_v st sess nid =
     requireLogin st sess (\<lambda>uid.
       (case nid of
          None \<Rightarrow> (error_handler_v CastError, st, sess)
        | Some i \<Rightarrow>
            (case findOneAndDelete (owned_note i uid) (db_notes st) of
               (None, _) \<Rightarrow> (Render 404 ''404'' (Message ''Note not found!''), st, sess)
             | (Some note, ns) \<Rightarrow> (Redirect ''/notes'', st\<lparr>db_notes := ns\<rparr>, sess))))"

definition post_signup_v :: "env \<Rightarrow> state \<Rightarrow> session \<Rightarrow> string \<Rightarrow> outcome" where
  "post_signup_v env st sess email =
     (case find (\<lambda>u. user_email u = Some email) (db_users st) of
        Some existingUser \<Rightarrow> (Send 200 ''Email already registered. Please login.'', st, sess)
      | None \<Rightarrow>
          (let otpCode = random_otpCode env in
           case OTP_create \<lparr>otp_id = new_ObjectId env, otp_userIdentifier = email,
                             otp_otp = otpCode, otp_createdAt = new_Date env\<rparr> (db_otps st) of
             Inl err \<Rightarrow> (error_handler_v err, st, sess)
           | Inr ds \<Rightarrow>
               if \<not> mail_ok env then (error_handler_v MailError, st\<lparr>db_otps := ds\<rparr>, sess)
               else
                 let st' = st\<lparr>db_otps := ds, outbox := outbox st @ [otp_mail env email otpCode]\<rparr>;
                     sess' = sess\<lparr>userIdentifier := Some email\<rparr>
                 in if \<not> save_ok env then (Send 200 ''Session error'', st', sess')
                    else (Redirect ''/verify-otp'', st', sess')))"

definition post_login_v :: "env \<Rightarrow> state \<Rightarrow> session \<Rightarrow> string \<Rightarrow> string \<Rightarrow> outcome" where
  "post_login_v env st sess email password =
     (case find (\<lambda>u. user_email u = Some email) (db_users st) of
        None \<Rightarrow> (Send 200 ''No user'', st, sess)
      | Some user \<Rightarrow>
          if \<not> bcrypt_compare env password (user_password user)
          then (Send 200 ''Invalid Password'', st, sess)
          else
            let sess' = sess\<lparr>userId := Some (user_id user)\<rparr>
            in if userId sess' = None then (Redirect ''/login'', st, sess')
               else (Redirect ''/notes'', st, sess'))"

section \<open>Worked examples\<close>

text \<open>
  Concrete stores and sessions for the examples below: one identity that asked for a
  code twice (two records, the second newer), a session waiting for its code, and
  the environment of one request.
\<close>

definition first_record :: otp_doc where
  "first_record =
     \<lparr>otp_id = 1, otp_userIdentifier = ''a@x.com'', otp_otp = ''111111'', otp_createdAt = 1000\<rparr>"

definition second_record :: otp_doc where
  "second_record =
     \<lparr>otp_id = 2, otp_userIdentifier = ''a@x.com'', otp_otp = ''222222'', otp_createdAt = 2000\<rparr>"

definition empty_store :: state where
  "empty_store = \<lparr>db_notes = [], db_users = [], db_otps = [], outbox = []\<rparr>"

definition one_request :: state where
  "one_request = empty_store\<lparr>db_otps := [first_record]\<rparr>"

definition two_requests :: state where
  "two_requests = empty_store\<lparr>db_otps := [first_record, second_record]\<rparr>"

definition anonymous :: session where
  "anonymous = \<lparr>userId = None, userIdentifier = None, tempUserIdentifier = None\<rparr>"

definition pending :: session where
  "pending = anonymous\<lparr>userIdentifier := Some ''a@x.com''\<rparr>"

definition repeated_code :: state where
  "repeated_code =
     empty_store\<lparr>db_otps := [first_record, second_record\<lparr>otp_otp := ''111111''\<rparr>]\<rparr>"

definition a_request :: env where
  "a_request =
     \<lparr>random_otpCode = ''222222'', new_Date = 2000, new_ObjectId = 2, mail_ok = True,
      save_ok = True, GMAIL_USER = ''noteapp@gmail.com'',
      bcrypt_hash = (\<lambda>p. ''salted:'' @ p),
      bcrypt_compare = (\<lambda>p h. h = ''salted:'' @ p),
      User_accepts = User_schema\<rparr>"

text \<open>Two registered users with one note each, and the session of the second.\<close>

definition alice :: user_doc where
  "alice = \<lparr>user_id = 1, user_email = Some ''a@x.com'', user_password = ''salted:secret''\<rparr>"

definition bob :: user_doc where
  "bob = \<lparr>user_id = 2, user_email = Some ''b@x.com'', user_password = ''salted:hunter2''\<rparr>"

definition alice_note :: note_doc where
  "alice_note =
     \<lparr>note_id = 10, note_title = ''shopping'', note_content = ''milk'', note_user = 1,
      note_createdAt = 500, note_updatedAt = 500\<rparr>"

definition bob_note :: note_doc where
  "bob_note =
     \<lparr>note_id = 11, note_title = ''todo'', note_content = ''call'', note_user = 2,
      note_createdAt = 600, note_updatedAt = 600\<rparr>"

definition notebook :: state where
  "notebook = empty_store\<lparr>db_notes := [alice_note, bob_note], db_users := [alice, bob]\<rparr>"

definition bob_session :: session where
  "bob_session = anonymous\<lparr>userId := Some 2\<rparr>"

section \<open>Facts about the collection operations\<close>

lemma sort_key_hd_least:
  assumes "r \<in> set xs" and "\<forall>x\<in>set xs. x \<noteq> r \<longrightarrow> f r < f x"
  shows "\<exists>rest. sort_key f xs = r # rest"
proof -
  have same: "set (sort_key f xs) = set xs" by simp
  moreover from assms(1) have "set xs \<noteq> {}" by auto
  ultimately have "sort_key f xs \<noteq> []" by (metis set_empty)
  then obtain y rest where ys: "sort_key f xs = y # rest"
    by (cases "sort_key f xs") auto
  have "sorted (map f (sort_key f xs))" by (rule sorted_sort_key)
  with ys have le: "\<forall>z\<in>set (y # rest). f y \<le> f z" by auto
  have "r \<in> set (y # rest)" using assms(1) ys same by simp
  with le have "f y \<le> f r" by blast
  moreover have "y \<in> set xs" using ys same by (metis list.set_intros(1))
  ultimately have "y = r" using assms(2) by force
  with ys show ?thesis by simp
qed

text \<open>A record of the identity that is strictly newer than every other record of the
  identity heads the sorted list.\<close>

lemma find_otps_latest:
  assumes "r \<in> set ds" and "otp_userIdentifier r = email"
    and "\<forall>r'\<in>set ds. otp_userIdentifier r' = email \<and> r' \<noteq> r
           \<longrightarrow> otp_createdAt r' < otp_createdAt r"
  shows "\<exists>rest. find_otps email ds = r # rest"
  unfolding find_otps_def
  by (rule sort_key_hd_least) (use assms in auto)

text \<open>Whatever the order among records of equal age, the head of the sorted list is a
  record of the identity that no other record of the identity is newer than.\<close>

lemma find_otps_head:
  assumes "find_otps email ds = y # rest"
  shows "y \<in> set ds \<and> otp_userIdentifier y = email \<and>
         (\<forall>r'\<in>set ds. otp_userIdentifier r' = email \<longrightarrow> otp_createdAt r' \<le> otp_createdAt y)"
proof -
  let ?xs = "filter (\<lambda>r. otp_userIdentifier r = email) ds"
  let ?f = "\<lambda>r. - otp_createdAt r"
  from assms have ys: "sort_key ?f ?xs = y # rest" by (simp add: find_otps_def)
  have same: "set (sort_key ?f ?xs) = set ?xs" by simp
  with ys have y: "y \<in> set ?xs" by (metis list.set_intros(1))
  have "sorted (map ?f (sort_key ?f ?xs))" by (rule sorted_sort_key)
  with ys have "\<forall>z\<in>set (y # rest). ?f y \<le> ?f z" by auto
  with ys same have "\<forall>z\<in>set ?xs. otp_createdAt z \<le> otp_createdAt y" by auto
  with y show ?thesis by auto
qed

lemma find_otps_empty:
  "(find_otps email ds = []) = (\<forall>r\<in>set ds. otp_userIdentifier r \<noteq> email)"
proof -
  have "(find_otps email ds = []) = (set (find_otps email ds) = {})" by simp
  also have "\<dots> = (\<forall>r\<in>set ds. otp_userIdentifier r \<noteq> email)"
    unfolding find_otps_def by auto
  finally show ?thesis .
qed

lemma find_Some_holds: "find p xs = Some x \<Longrightarrow> p x"
  by (induction xs) (auto split: if_splits)

lemma findOneAndDelete_fst: "fst (findOneAndDelete p xs) = find p xs"
  by (induction xs) (auto split: prod.splits)

lemma findOneAndDelete_snd:
  "snd (findOneAndDelete p xs) = (case find p xs of None \<Rightarrow> xs | Some x \<Rightarrow> remove1 x xs)"
  by (induction xs) (auto split: prod.splits option.splits dest: find_Some_holds)

lemma find_by_id:
  assumes "distinct (map k xs)" and "r \<in> set xs"
  shows "find (\<lambda>x. k x = k r) xs = Some r"
  using assms by (induction xs) (auto simp: rev_image_eqI)

lemma deleteOne_by_id:
  assumes "distinct (map k xs)" and "r \<in> set xs"
  shows "deleteOne (\<lambda>x. k x = k r) xs = remove1 r xs"
  by (simp add: deleteOne_def findOneAndDelete_snd find_by_id[OF assms])

lemma find_first:
  assumes "xs = pre @ x # post" and "\<forall>y\<in>set pre. \<not> p y" and "p x"
  shows "find p xs = Some x"
  using assms by (induction pre arbitrary: xs) auto

lemma find_None_all: "(find p xs = None) = (\<forall>x\<in>set xs. \<not> p x)"
  by (induction xs) auto

lemma findOneAndUpdate_None:
  "find p xs = None \<Longrightarrow> findOneAndUpdate p f xs = (None, xs)"
  by (induction xs) (auto split: if_splits)

lemma findOneAndUpdate_Some:
  "find p xs = Some x \<Longrightarrow>
     \<exists>pre post. xs = pre @ x # post \<and> findOneAndUpdate p f xs = (Some (f x), pre @ f x # post)"
proof (induction xs)
  case Nil
  then show ?case by simp
next
  case (Cons a xs)
  show ?case
  proof (cases "p a")
    case True
    with Cons.prems have "a = x" by simp
    with True show ?thesis by (intro exI[of _ "[]"] exI[of _ xs]) auto
  next
    case False
    with Cons.prems have "find p xs = Some x" by simp
    from Cons.IH[OF this] obtain pre post where
      "xs = pre @ x # post" "findOneAndUpdate p f xs = (Some (f x), pre @ f x # post)" by blast
    with False show ?thesis by (intro exI[of _ "a # pre"] exI[of _ post]) simp
  qed
qed

lemma findOneAndDelete_None:
  "find p xs = None \<Longrightarrow> findOneAndDelete p xs = (None, xs)"
  by (induction xs) (auto split: if_splits)

lemma findOneAndDelete_Some:
  "find p xs = Some x \<Longrightarrow>
     \<exists>pre post. xs = pre @ x # post \<and> findOneAndDelete p xs = (Some x, pre @ post)"
proof (induction xs)
  case Nil
  then show ?case by simp
next
  case (Cons a xs)
  show ?case
  proof (cases "p a")
    case True
    with Cons.prems have "a = x" by simp
    with True show ?thesis by (intro exI[of _ "[]"] exI[of _ xs]) auto
  next
    case False
    with Cons.prems have "find p xs = Some x" by simp
    from Cons.IH[OF this] obtain pre post where
      "xs = pre @ x # post" "findOneAndDelete p xs = (Some x, pre @ post)" by blast
    with False show ?thesis by (intro exI[of _ "a # pre"] exI[of _ post]) simp
  qed
qed

lemma foreign_note_not_found:
  assumes "distinct (map note_id (db_notes st))"
    and "n \<in> set (db_notes st)" and "note_user n \<noteq> uid"
  shows "find (owned_note (note_id n) uid) (db_notes st) = None"
proof -
  have "\<forall>x\<in>set (db_notes st). \<not> owned_note (note_id n) uid x"
  proof
    fix x assume x: "x \<in> set (db_notes st)"
    show "\<not> owned_note (note_id n) uid x"
    proof
      assume o: "owned_note (note_id n) uid x"
      from assms(1) have "inj_on note_id (set (db_notes st))" by (simp add: distinct_map)
      with x assms(2) o have "x = n" by (auto simp: owned_note_def dest: inj_onD)
      with o assms(3) show False by (simp add: owned_note_def)
    qed
  qed
  then show ?thesis by (simp add: find_None_all)
qed

lemma missing_note_not_found:
  assumes "j \<notin> note_id ` set (db_notes st)"
  shows "find (owned_note j uid) (db_notes st) = None"
  using assms by (auto simp: find_None_all owned_note_def)

text \<open>Only the note matching the compound filter is touched by an update or a
  deletion; everything else in the state, and the session, stays.\<close>

lemma put_note_frame:
  assumes a: "put_note env st sess nid title content = (resp, st', sess')"
  shows "db_users st' = db_users st \<and> db_otps st' = db_otps st \<and> outbox st' = outbox st \<and>
      sess' = sess \<and>
      (db_notes st' = db_notes st \<or>
       (\<exists>pre n post. db_notes st = pre @ n # post \<and> nid = Some (note_id n) \<and>
          userId sess = Some (note_user n) \<and>
          db_notes st' = pre @ n\<lparr>note_title := title, note_content := content,
                                  note_updatedAt := new_Date env\<rparr> # post))"
proof (cases "userId sess")
  case None
  with a show ?thesis by (auto simp: put_note_def requireLogin_def)
next
  case (Some uid)
  let ?f = "\<lambda>n. n\<lparr>note_title := title, note_content := content, note_updatedAt := new_Date env\<rparr>"
  show ?thesis
  proof (cases nid)
    case None
    with a Some show ?thesis by (auto simp: put_note_def requireLogin_def)
  next
    case i: (Some i)
    show ?thesis
    proof (cases "find (owned_note i uid) (db_notes st)")
      case None
      from findOneAndUpdate_None[OF this, of ?f] a Some i show ?thesis
        by (auto simp: put_note_def requireLogin_def)
    next
      case n: (Some n)
      from findOneAndUpdate_Some[OF this, of ?f] obtain pre post where
        pp: "db_notes st = pre @ n # post"
        "findOneAndUpdate (owned_note i uid) ?f (db_notes st) = (Some (?f n), pre @ ?f n # post)"
        by blast
      from find_Some_holds[OF n] have o: "note_id n = i" "note_user n = uid"
        by (simp_all add: owned_note_def)
      from a Some i pp(2) have "st' = st\<lparr>db_notes := pre @ ?f n # post\<rparr>" "sess' = sess"
        by (auto simp: put_note_def requireLogin_def)
      with pp(1) o Some i show ?thesis by auto
    qed
  qed
qed

lemma delete_note_frame:
  assumes a: "delete_note st sess nid = (resp, st', sess')"
  shows "db_users st' = db_users st \<and> db_otps st' = db_otps st \<and> outbox st' = outbox st \<and>
      sess' = sess \<and>
      (db_notes st' = db_notes st \<or>
       (\<exists>pre n post. db_notes st = pre @ n # post \<and> nid = Some (note_id n) \<and>
          userId sess = Some (note_user n) \<and> db_notes st' = pre @ post))"
proof (cases "userId sess")
  case None
  with a show ?thesis by (auto simp: delete_note_def requireLogin_def)
next
  case (Some uid)
  show ?thesis
  proof (cases nid)
    case None
    with a Some show ?thesis by (auto simp: delete_note_def requireLogin_def)
  next
    case i: (Some i)
    show ?thesis
    proof (cases "find (owned_note i uid) (db_notes st)")
      case None
      from findOneAndDelete_None[OF this] a Some i show ?thesis
        by (auto simp: delete_note_def requireLogin_def)
    next
      case n: (Some n)
      from findOneAndDelete_Some[OF this] obtain pre post where
        pp: "db_notes st = pre @ n # post"
        "findOneAndDelete (owned_note i uid) (db_notes st) = (Some n, pre @ post)"
        by blast
      from find_Some_holds[OF n] have o: "note_id n = i" "note_user n = uid"
        by (simp_all add: owned_note_def)
      from a Some i pp(2) have "st' = st\<lparr>db_notes := pre @ post\<rparr>" "sess' = sess"
        by (auto simp: delete_note_def requireLogin_def)
      with pp(1) o Some i show ?thesis by auto
    qed
  qed
qed

text \<open>What \<open>POST /verify-otp\<close> does when the identity has a newest record: the one
  comparison decides between the two remaining branches.\<close>

lemma verify_otp_against_newest:
  assumes "userIdentifier sess = Some email" and "email \<noteq> []"
    and "r \<in> set (db_otps st)" and "otp_userIdentifier r = email"
    and "\<forall>r'\<in>set (db_otps st). otp_userIdentifier r' = email \<and> r' \<noteq> r
           \<longrightarrow> otp_createdAt r' < otp_createdAt r"
  shows "post_verify_otp st sess otp =
     (if otp_otp r \<noteq> otp then (Send 200 ''Invalid OTP'', st, sess)
      else (Redirect ''/set-password'',
            st\<lparr>db_otps := deleteOne (\<lambda>x. otp_id x = otp_id r) (db_otps st)\<rparr>,
            sess\<lparr>tempUserIdentifier := Some email\<rparr>))"
proof -
  from find_otps_latest[OF assms(3,4,5)]
  obtain rest where "find_otps email (db_otps st) = r # rest" ..
  with assms(1,2) show ?thesis by (simp add: post_verify_otp_def)
qed

section \<open>Verification of a submitted code\<close>

text \<open>
  Claim C7. \<open>POST /verify-otp\<close> answers "Session expired or email not found." when the
  session holds no pending email (the key is absent or empty), and "No OTP record
  found." when it holds one for which the store has no record; in both cases the
  collections, the mails and the session are what they were.
\<close>

theorem verify_otp_without_identity_or_record:
  "(userIdentifier sess = None \<or> userIdentifier sess = Some [] \<longrightarrow>
      post_verify_otp st sess otp =
        (Send 200 ''Session expired or email not found.'', st, sess)) \<and>
   (userIdentifier sess = Some email \<and> email \<noteq> [] \<and>
      (\<forall>r\<in>set (db_otps st). otp_userIdentifier r \<noteq> email) \<longrightarrow>
      post_verify_otp st sess otp = (Send 200 ''No OTP record found.'', st, sess))"
  by (auto simp: post_verify_otp_def find_otps_empty[symmetric]
      split: option.splits list.splits)

text \<open>An anonymous session, and a pending session facing an empty store.\<close>

theorem verify_otp_without_identity_or_record_witness:
  "post_verify_otp two_requests anonymous ''222222'' =
     (Send 200 ''Session expired or email not found.'', two_requests, anonymous) \<and>
   post_verify_otp empty_store pending ''222222'' =
     (Send 200 ''No OTP record found.'', empty_store, pending)"
  using verify_otp_without_identity_or_record
          [of anonymous two_requests "''222222''" "''a@x.com''"]
        verify_otp_without_identity_or_record
          [of pending empty_store "''222222''" "''a@x.com''"]
  by (simp add: anonymous_def pending_def empty_store_def)

text \<open>
  Claim C4. For a session with a pending email that has at least one record, a
  submitted code that differs from the code of the most recent record (of every
  most recent record, should several share the greatest \<open>createdAt\<close>) is answered
  "Invalid OTP"; no record is deleted, and the session is unchanged: no verified
  identity and no user id is written.
\<close>

theorem verify_otp_mismatch:
  assumes "userIdentifier sess = Some email" and "email \<noteq> []"
    and "\<exists>r\<in>set (db_otps st). otp_userIdentifier r = email"
    and "\<forall>r\<in>set (db_otps st).
           otp_userIdentifier r = email \<and>
           (\<forall>r'\<in>set (db_otps st). otp_userIdentifier r' = email
              \<longrightarrow> otp_createdAt r' \<le> otp_createdAt r)
           \<longrightarrow> otp_otp r \<noteq> otp"
  shows "post_verify_otp st sess otp = (Send 200 ''Invalid OTP'', st, sess)"
proof -
  from assms(3) have "find_otps email (db_otps st) \<noteq> []"
    by (simp add: find_otps_empty)
  then obtain y rest where ys: "find_otps email (db_otps st) = y # rest"
    by (cases "find_otps email (db_otps st)") auto
  from find_otps_head[OF ys] assms(4) have "otp_otp y \<noteq> otp" by blast
  with ys assms(1,2) show ?thesis by (simp add: post_verify_otp_def)
qed

text \<open>A wrong code against the two records of the worked signup.\<close>

theorem verify_otp_mismatch_witness:
  "post_verify_otp two_requests pending ''999999'' =
     (Send 200 ''Invalid OTP'', two_requests, pending)"
  using verify_otp_mismatch [of pending "''a@x.com''" two_requests "''999999''"]
  by (simp add: pending_def anonymous_def two_requests_def empty_store_def
      first_record_def second_record_def)

text \<open>
  Claim C1, as the code has it. For a session with a pending email whose identity has
  a newest record, the answer to a submitted code depends on that record alone: the
  code of the newest record is accepted, every other code is answered "Invalid OTP";
  so the code of an older record is refused, unconsumed as it is, whenever it
  differs from the newest code.
\<close>

theorem verify_otp_latest_wins:
  assumes "userIdentifier sess = Some email" and "email \<noteq> []"
    and "r \<in> set (db_otps st)" and "otp_userIdentifier r = email"
    and "\<forall>r'\<in>set (db_otps st). otp_userIdentifier r' = email \<and> r' \<noteq> r
           \<longrightarrow> otp_createdAt r' < otp_createdAt r"
  shows "fst (post_verify_otp st sess otp) =
           (if otp = otp_otp r then Redirect ''/set-password'' else Send 200 ''Invalid OTP'') \<and>
         (\<forall>r'\<in>set (db_otps st).
            otp_userIdentifier r' = email \<and> otp_createdAt r' < otp_createdAt r \<and>
            otp_otp r' \<noteq> otp_otp r
            \<longrightarrow> post_verify_otp st sess (otp_otp r') = (Send 200 ''Invalid OTP'', st, sess))"
proof
  show "fst (post_verify_otp st sess otp) =
           (if otp = otp_otp r then Redirect ''/set-password'' else Send 200 ''Invalid OTP'')"
    using verify_otp_against_newest[OF assms, of otp] by auto
next
  show "\<forall>r'\<in>set (db_otps st).
            otp_userIdentifier r' = email \<and> otp_createdAt r' < otp_createdAt r \<and>
            otp_otp r' \<noteq> otp_otp r
            \<longrightarrow> post_verify_otp st sess (otp_otp r') = (Send 200 ''Invalid OTP'', st, sess)"
  proof (intro ballI impI)
    fix r' assume "otp_userIdentifier r' = email \<and> otp_createdAt r' < otp_createdAt r \<and>
            otp_otp r' \<noteq> otp_otp r"
    then show "post_verify_otp st sess (otp_otp r') = (Send 200 ''Invalid OTP'', st, sess)"
      using verify_otp_against_newest[OF assms, of "otp_otp r'"] by auto
  qed
qed

text \<open>The two requests of the worked signup: the second code passes, the first is
  refused.\<close>

theorem verify_otp_latest_wins_witness:
  "fst (post_verify_otp two_requests pending ''222222'') = Redirect ''/set-password'' \<and>
   post_verify_otp two_requests pending ''111111'' =
     (Send 200 ''Invalid OTP'', two_requests, pending)"
  using verify_otp_latest_wins
          [of pending "''a@x.com''" second_record two_requests "''222222''"]
  by (simp add: pending_def anonymous_def two_requests_def empty_store_def
      first_record_def second_record_def)

text \<open>
  Without the proviso the statement fails where two requests drew the same code: the
  older record is in the store, was never consumed, and its code is accepted,
  because the comparison is with the code of the newest record and the two are equal.
\<close>

theorem verify_otp_older_record_same_code:
  "first_record \<in> set (db_otps repeated_code) \<and>
   otp_createdAt first_record < otp_createdAt (second_record\<lparr>otp_otp := ''111111''\<rparr>) \<and>
   post_verify_otp repeated_code pending (otp_otp first_record) =
     (Redirect ''/set-password'', one_request,
      pending\<lparr>tempUserIdentifier := Some ''a@x.com''\<rparr>)"
  by (simp add: post_verify_otp_def find_otps_def deleteOne_def repeated_code_def
      one_request_def empty_store_def pending_def anonymous_def first_record_def
      second_record_def)

text \<open>
  Claim C2, as the code has it. For a session with a pending email, when the submitted
  code is the code of the newest record of that email, \<open>POST /verify-otp\<close> removes
  exactly that record (all other records, notes, users and mails stay) and sets the
  verified identity of the session to that email; the pending identity stays in the
  session and the user id is not written.
\<close>

theorem verify_otp_consumes_latest:
  assumes "userIdentifier sess = Some email" and "email \<noteq> []"
    and "distinct (map otp_id (db_otps st))"
    and "r \<in> set (db_otps st)" and "otp_userIdentifier r = email"
    and "\<forall>r'\<in>set (db_otps st). otp_userIdentifier r' = email \<and> r' \<noteq> r
           \<longrightarrow> otp_createdAt r' < otp_createdAt r"
  shows "post_verify_otp st sess (otp_otp r) =
           (Redirect ''/set-password'', st\<lparr>db_otps := remove1 r (db_otps st)\<rparr>,
            sess\<lparr>tempUserIdentifier := Some email\<rparr>) \<and>
         userId (snd (snd (post_verify_otp st sess (otp_otp r)))) = userId sess \<and>
         userIdentifier (snd (snd (post_verify_otp st sess (otp_otp r)))) = Some email"
  using verify_otp_against_newest[OF assms(1,2,4,5,6), of "otp_otp r"]
        deleteOne_by_id[OF assms(3,4)] assms(1)
  by simp

text \<open>The newer code of the worked signup consumes the second record and leaves the
  first.\<close>

theorem verify_otp_consumes_latest_witness:
  "post_verify_otp two_requests pending ''222222'' =
     (Redirect ''/set-password'', one_request,
      pending\<lparr>tempUserIdentifier := Some ''a@x.com''\<rparr>)"
  using verify_otp_consumes_latest
          [of pending "''a@x.com''" two_requests second_record]
  by (simp add: pending_def anonymous_def two_requests_def one_request_def empty_store_def
      first_record_def second_record_def)

text \<open>
  The pending identity is not replaced: after a successful verification the session
  still holds the pending email beside the verified one.
\<close>

theorem verify_otp_keeps_pending_identity:
  "fst (post_verify_otp two_requests pending ''222222'') = Redirect ''/set-password'' \<and>
   userIdentifier (snd (snd (post_verify_otp two_requests pending ''222222''))) =
     Some ''a@x.com'' \<and>
   tempUserIdentifier (snd (snd (post_verify_otp two_requests pending ''222222''))) =
     Some ''a@x.com''"
  by (simp add: post_verify_otp_def find_otps_def deleteOne_def two_requests_def
      empty_store_def pending_def anonymous_def first_record_def second_record_def)

section \<open>Requesting a code\<close>

lemma signup_valid:
  assumes "email \<noteq> []" and "mail_ok env"
  shows "post_signup env st sess email =
     (if save_ok env then Redirect ''/verify-otp'' else Send 200 ''Session error'',
      st\<lparr>db_otps := db_otps st @
            [\<lparr>otp_id = new_ObjectId env, otp_userIdentifier = email,
              otp_otp = random_otpCode env, otp_createdAt = new_Date env\<rparr>],
         outbox := outbox st @ [otp_mail env email (random_otpCode env)]\<rparr>,
      sess\<lparr>userIdentifier := Some email\<rparr>)"
  using assms by (simp add: post_signup_def OTP_create_def Let_def)

lemma signup_v_unregistered:
  assumes "email \<noteq> []" and "mail_ok env"
    and "\<forall>u\<in>set (db_users st). user_email u \<noteq> Some email"
  shows "post_signup_v env st sess email = post_signup env st sess email"
proof -
  from assms(3) have "find (\<lambda>u. user_email u = Some email) (db_users st) = None"
    by (simp add: find_None_all)
  with assms(1,2) show ?thesis
    by (simp add: post_signup_v_def post_signup_def OTP_create_def Let_def)
qed

text \<open>
  Claim C5, as the code has it. A signup with a non-empty email whose mail the
  transport accepts adds exactly one record to the store, after the records that
  were there (those of the same email included): its identifier is the submitted
  email and its code is the code written into the one mail sent to that email. The
  second copy of the application does the same when no user has that email.
\<close>

theorem signup_adds_one_record:
  assumes "email \<noteq> []" and "mail_ok env"
  shows "snd (post_signup env st sess email) =
           (st\<lparr>db_otps := db_otps st @
                  [\<lparr>otp_id = new_ObjectId env, otp_userIdentifier = email,
                    otp_otp = random_otpCode env, otp_createdAt = new_Date env\<rparr>],
               outbox := outbox st @
                  [\<lparr>mail_from = ''\"NoteApp\" <'' @ GMAIL_USER env @ ''>'', mail_to = email,
                    mail_subject = ''Your OTP Code'',
                    mail_text = ''Your OTP is '' @ random_otpCode env @ ''.''\<rparr>]\<rparr>,
            sess\<lparr>userIdentifier := Some email\<rparr>) \<and>
         ((\<forall>u\<in>set (db_users st). user_email u \<noteq> Some email) \<longrightarrow>
            post_signup_v env st sess email = post_signup env st sess email)"
  using signup_valid[OF assms, of st sess] signup_v_unregistered[OF assms, of st sess]
  by (simp add: otp_mail_def)

text \<open>The second request of the worked signup.\<close>

theorem signup_adds_one_record_witness:
  "snd (post_signup a_request one_request anonymous ''a@x.com'') =
     (two_requests\<lparr>outbox :=
        [\<lparr>mail_from = ''\"NoteApp\" <noteapp@gmail.com>'', mail_to = ''a@x.com'',
          mail_subject = ''Your OTP Code'', mail_text = ''Your OTP is 222222.''\<rparr>]\<rparr>,
      pending) \<and>
   post_signup_v a_request one_request anonymous ''a@x.com'' =
     post_signup a_request one_request anonymous ''a@x.com''"
  using signup_adds_one_record [of "''a@x.com''" a_request one_request anonymous]
  by (simp add: a_request_def one_request_def two_requests_def empty_store_def
      pending_def anonymous_def second_record_def)

text \<open>
  "Exactly one record with the submitted email" fails at a second request for the
  same email: the record of the first request is still there, so two records carry
  the submitted email.
\<close>

theorem signup_twice_two_records:
  "map otp_userIdentifier
     (db_otps (fst (snd (post_signup a_request one_request anonymous ''a@x.com'')))) =
     [''a@x.com'', ''a@x.com'']"
  by (simp add: post_signup_def OTP_create_def Let_def a_request_def one_request_def
      empty_store_def first_record_def)

lemma signup_never_answers_registered:
  "fst (post_signup env st sess email) \<noteq> Send 200 ''Email already registered. Please login.''"
  by (simp add: post_signup_def OTP_create_def Let_def error_handler_def)

text \<open>
  Claim C10. In the second copy of the application, a signup with the email of a
  stored user is answered "Email already registered. Please login." and nothing
  happens: no record, no mail, no pending identity. The first copy has no such test:
  it never gives that answer, and for a non-empty email and a working transport it
  stores a record, sends the mail and sets the pending identity.
\<close>

theorem signup_v_registered_email:
  assumes "u \<in> set (db_users st)" and "user_email u = Some email"
  shows "post_signup_v env st sess email =
           (Send 200 ''Email already registered. Please login.'', st, sess) \<and>
         post_signup env st sess email \<noteq> post_signup_v env st sess email \<and>
         (email \<noteq> [] \<and> mail_ok env \<longrightarrow>
            length (db_otps (fst (snd (post_signup env st sess email)))) =
              Suc (length (db_otps st)) \<and>
            length (outbox (fst (snd (post_signup env st sess email)))) =
              Suc (length (outbox st)) \<and>
            userIdentifier (snd (snd (post_signup env st sess email))) = Some email)"
proof -
  from assms have "find (\<lambda>u. user_email u = Some email) (db_users st) \<noteq> None"
    by (auto simp: find_None_all)
  then have v: "post_signup_v env st sess email =
           (Send 200 ''Email already registered. Please login.'', st, sess)"
    by (auto simp: post_signup_v_def)
  moreover have "post_signup env st sess email \<noteq> post_signup_v env st sess email"
    using signup_never_answers_registered[of env st sess email] v by auto
  moreover have "email \<noteq> [] \<and> mail_ok env \<longrightarrow>
            length (db_otps (fst (snd (post_signup env st sess email)))) =
              Suc (length (db_otps st)) \<and>
            length (outbox (fst (snd (post_signup env st sess email)))) =
              Suc (length (outbox st)) \<and>
            userIdentifier (snd (snd (post_signup env st sess email))) = Some email"
    by (simp add: signup_valid)
  ultimately show ?thesis by blast
qed

text \<open>A signup with the email of a registered user, in both copies.\<close>

theorem signup_v_registered_email_witness:
  "post_signup_v a_request notebook anonymous ''a@x.com'' =
     (Send 200 ''Email already registered. Please login.'', notebook, anonymous) \<and>
   fst (post_signup a_request notebook anonymous ''a@x.com'') = Redirect ''/verify-otp'' \<and>
   db_otps (fst (snd (post_signup a_request notebook anonymous ''a@x.com''))) =
     [second_record]"
  using signup_v_registered_email [of alice notebook "''a@x.com''" a_request anonymous]
  by (simp add: post_signup_def OTP_create_def Let_def a_request_def notebook_def
      empty_store_def alice_def second_record_def)

section \<open>Setting the password\<close>

text \<open>The handler has two outcomes, and which one is taken is the schema's decision
  alone: the session is read, never tested.\<close>

lemma set_password_rejected:
  assumes "\<not> User_accepts env (db_users st)
             \<lparr>user_id = new_ObjectId env, user_email = tempUserIdentifier sess,
              user_password = bcrypt_hash env password\<rparr>"
  shows "post_set_password env st sess password = (error_handler ValidationError, st, sess)"
  using assms by (simp add: post_set_password_def Let_def)

lemma set_password_accepted:
  assumes "User_accepts env (db_users st)
             \<lparr>user_id = new_ObjectId env, user_email = tempUserIdentifier sess,
              user_password = bcrypt_hash env password\<rparr>"
  shows "post_set_password env st sess password =
     (Redirect ''/notes'',
      st\<lparr>db_users := db_users st @
            [\<lparr>user_id = new_ObjectId env, user_email = tempUserIdentifier sess,
              user_password = bcrypt_hash env password\<rparr>]\<rparr>,
      sess\<lparr>userId := Some (new_ObjectId env)\<rparr>)"
  using assms by (simp add: post_set_password_def Let_def)



section \<open>Login\<close>

text \<open>
  Claim C8. \<open>POST /login\<close> answers "No user" when no stored user has the submitted
  email; with \<open>user\<close> the first stored user of that email, it answers
  "Invalid Password" when \<open>bcrypt.compare\<close> of the submitted password with the stored
  hash fails, and otherwise sets the user id of the session to the id of \<open>user\<close> and
  redirects to the notes. The records, the pending and the verified identity play no
  part, and the state is unchanged in all three cases. The second copy of the
  handler gives the same outcomes.
\<close>

theorem login_outcomes:
  "((\<forall>u\<in>set (db_users st). user_email u \<noteq> Some email) \<longrightarrow>
      post_login env st sess email password = (Send 200 ''No user'', st, sess)) \<and>
   (db_users st = pre @ user # post \<and> (\<forall>u\<in>set pre. user_email u \<noteq> Some email) \<and>
    user_email user = Some email \<longrightarrow>
      post_login env st sess email password =
        (if bcrypt_compare env password (user_password user)
         then (Redirect ''/notes'', st, sess\<lparr>userId := Some (user_id user)\<rparr>)
         else (Send 200 ''Invalid Password'', st, sess))) \<and>
   post_login_v env st sess email password = post_login env st sess email password"
proof (intro conjI impI)
  assume "\<forall>u\<in>set (db_users st). user_email u \<noteq> Some email"
  then have "find (\<lambda>u. user_email u = Some email) (db_users st) = None"
    by (simp add: find_None_all)
  then show "post_login env st sess email password = (Send 200 ''No user'', st, sess)"
    by (simp add: post_login_def)
next
  assume a: "db_users st = pre @ user # post \<and> (\<forall>u\<in>set pre. user_email u \<noteq> Some email) \<and>
    user_email user = Some email"
  then have "find (\<lambda>u. user_email u = Some email) (db_users st) = Some user"
    by (intro find_first[of _ pre user post]) auto
  then show "post_login env st sess email password =
        (if bcrypt_compare env password (user_password user)
         then (Redirect ''/notes'', st, sess\<lparr>userId := Some (user_id user)\<rparr>)
         else (Send 200 ''Invalid Password'', st, sess))"
    by (simp add: post_login_def)
next
  show "post_login_v env st sess email password = post_login env st sess email password"
    by (simp add: post_login_v_def post_login_def Let_def split: option.splits)
qed

text \<open>An unknown email, a wrong password and the right password, from an anonymous
  session.\<close>

theorem login_outcomes_witness:
  "post_login a_request notebook anonymous ''c@x.com'' ''secret'' =
     (Send 200 ''No user'', notebook, anonymous) \<and>
   post_login a_request notebook anonymous ''b@x.com'' ''secret'' =
     (Send 200 ''Invalid Password'', notebook, anonymous) \<and>
   post_login a_request notebook anonymous ''b@x.com'' ''hunter2'' =
     (Redirect ''/notes'', notebook, bob_session)"
  using login_outcomes [where st = notebook and email = "''c@x.com''" and env = a_request
          and sess = anonymous and password = "''secret''"]
        login_outcomes [where st = notebook and email = "''b@x.com''" and env = a_request
          and sess = anonymous and password = "''secret''" and pre = "[alice]"
          and user = bob and post = "[]"]
        login_outcomes [where st = notebook and email = "''b@x.com''" and env = a_request
          and sess = anonymous and password = "''hunter2''" and pre = "[alice]"
          and user = bob and post = "[]"]
  by (simp add: a_request_def notebook_def empty_store_def alice_def bob_def
      bob_session_def anonymous_def)

section \<open>Ownership of notes\<close>

text \<open>
  Claim C6. For a logged-in session, reading, updating or deleting a stored note that
  belongs to another user has the outcome of the same request for an id that no
  stored note has: status 404, the view \<open>404\<close> with "Note not found!", state and
  session untouched. In the second copy of the application the two outcomes are
  equal as well. Note ids are unique in the collection.
\<close>

theorem foreign_note_like_missing_note:
  assumes "userId sess = Some uid"
    and "distinct (map note_id (db_notes st))"
    and "n \<in> set (db_notes st)" and "note_user n \<noteq> uid"
    and "j \<notin> note_id ` set (db_notes st)"
  shows
   "get_note st sess (Some (note_id n)) = (Render 404 ''404'' (Message ''Note not found!''), st, sess) \<and>
    get_note st sess (Some j) = (Render 404 ''404'' (Message ''Note not found!''), st, sess) \<and>
    put_note env st sess (Some (note_id n)) title content = (Render 404 ''404'' (Message ''Note not found!''), st, sess) \<and>
    put_note env st sess (Some j) title content = (Render 404 ''404'' (Message ''Note not found!''), st, sess) \<and>
    delete_note st sess (Some (note_id n)) = (Render 404 ''404'' (Message ''Note not found!''), st, sess) \<and>
    delete_note st sess (Some j) = (Render 404 ''404'' (Message ''Note not found!''), st, sess) \<and>
    get_note_v st sess (Some (note_id n)) = get_note_v st sess (Some j) \<and>
    put_note_v env st sess (Some (note_id n)) title content = put_note_v env st sess (Some j) title content \<and>
    delete_note_v st sess (Some (note_id n)) = delete_note_v st sess (Some j)"
proof -
  note f = foreign_note_not_found[OF assms(2,3,4)]
  note m = missing_note_not_found[OF assms(5), of uid]
  show ?thesis
    using assms(1)
    by (simp add: get_note_def put_note_def delete_note_def get_note_v_def put_note_v_def
        delete_note_v_def requireLogin_def f m findOneAndUpdate_None findOneAndDelete_None)
qed

text \<open>Bob asks for Alice's note and for an id that does not exist.\<close>

theorem foreign_note_like_missing_note_witness:
  "get_note notebook bob_session (Some 10) = get_note notebook bob_session (Some 99) \<and>
   get_note notebook bob_session (Some 10) =
     (Render 404 ''404'' (Message ''Note not found!''), notebook, bob_session) \<and>
   put_note a_request notebook bob_session (Some 10) ''mine'' ''now'' =
     put_note a_request notebook bob_session (Some 99) ''mine'' ''now'' \<and>
   delete_note notebook bob_session (Some 10) = delete_note notebook bob_session (Some 99)"
  using foreign_note_like_missing_note
          [of bob_session 2 notebook alice_note 99 a_request "''mine''" "''now''"]
  by (simp add: notebook_def empty_store_def alice_note_def bob_note_def bob_session_def
      anonymous_def)

text \<open>
  Claim C9. Whatever the outcome of \<open>PUT\<close> or \<open>DELETE /notes/:id\<close>, users, records,
  mails and the session are unchanged, and the notes are unchanged except for at
  most one: a note whose id is the path parameter and whose owner is the user of the
  session, which is updated in place (title, content, \<open>updatedAt\<close>) or removed.
\<close>

theorem note_update_delete_frame:
  "(put_note env st sess nid title content = (resp, st', sess') \<longrightarrow>
      db_users st' = db_users st \<and> db_otps st' = db_otps st \<and> outbox st' = outbox st \<and>
      sess' = sess \<and>
      (db_notes st' = db_notes st \<or>
       (\<exists>pre n post. db_notes st = pre @ n # post \<and> nid = Some (note_id n) \<and>
          userId sess = Some (note_user n) \<and>
          db_notes st' = pre @ n\<lparr>note_title := title, note_content := content,
                                  note_updatedAt := new_Date env\<rparr> # post))) \<and>
   (delete_note st sess nid = (resp, st', sess') \<longrightarrow>
      db_users st' = db_users st \<and> db_otps st' = db_otps st \<and> outbox st' = outbox st \<and>
      sess' = sess \<and>
      (db_notes st' = db_notes st \<or>
       (\<exists>pre n post. db_notes st = pre @ n # post \<and> nid = Some (note_id n) \<and>
          userId sess = Some (note_user n) \<and> db_notes st' = pre @ post)))"
  using put_note_frame[of env st sess nid title content resp st' sess']
        delete_note_frame[of st sess nid resp st' sess']
  by blast

text \<open>Bob updates and deletes his own note; Alice's note stays as it is.\<close>

theorem note_update_delete_frame_witness:
  "put_note a_request notebook bob_session (Some 11) ''mine'' ''now'' =
     (Redirect ''/notes'',
      notebook\<lparr>db_notes :=
        [alice_note,
         bob_note\<lparr>note_title := ''mine'', note_content := ''now'', note_updatedAt := 2000\<rparr>]\<rparr>,
      bob_session) \<and>
   delete_note notebook bob_session (Some 11) =
     (Redirect ''/notes'', notebook\<lparr>db_notes := [alice_note]\<rparr>, bob_session)"
  using note_update_delete_frame
          [where env = a_request and st = notebook and sess = bob_session
             and nid = "Some 11" and title = "''mine''" and content = "''now''"
             and resp = "Redirect ''/notes''" and sess' = bob_session
             and st' = "notebook\<lparr>db_notes :=
               [alice_note, bob_note\<lparr>note_title := ''mine'', note_content := ''now'',
                                      note_updatedAt := 2000\<rparr>]\<rparr>"]
        note_update_delete_frame
          [where env = a_request and st = notebook and sess = bob_session
             and nid = "Some 11" and title = "''mine''" and content = "''now''"
             and resp = "Redirect ''/notes''" and sess' = bob_session
             and st' = "notebook\<lparr>db_notes := [alice_note]\<rparr>"]
  by (simp add: put_note_def delete_note_def requireLogin_def owned_note_def
      a_request_def notebook_def empty_store_def alice_note_def bob_note_def
      bob_session_def anonymous_def)

end
